theory Spec2Isabelle
  imports Main
begin

text \<open>
  A career-page watcher: on each pass it scrapes every configured URL, compares the jobs
  found with the snapshot stored for that URL, notifies about the difference and stores
  the new snapshot. This theory embeds the domain types, the in-memory repository, the
  diff and the orchestrating service, and proves what a pass does and what the diff
  returns.
\<close>

section \<open>Domain model (internal/core/domain/job.go)\<close>

text \<open>
  Go's \<^verbatim>\<open>time.Time\<close> is read as an offset from the zero time, so that the zero
  value of the type is \<open>0\<close>. A Go \<^verbatim>\<open>string\<close> is a \<open>string\<close>; a slice is a list
  (the nil slice and the empty slice both have length 0 and are the empty list).
\<close>

type_synonym Time = int

record Job =
  ID :: string
  Title :: string
  Description :: string
  Location :: string
  Department :: string
  URL :: string
  PostedDate :: Time
  ScrapedAt :: Time

record JobCollection =
  CompanyName :: string
  SourceURL :: string
  ScrapedAt :: Time
  Jobs :: "Job list"
  RawContent :: string

record DiffResult =
  CompanyName :: string
  SourceURL :: string
  NewJobs :: "Job list"
  RemovedJobs :: "Job list"
  UpdatedJobs :: "Job list"

text \<open>The composite literal \<^verbatim>\<open>domain.JobCollection{}\<close>: every field at its zero value.\<close>

definition JobCollection_zero :: JobCollection where
  "JobCollection_zero =
     \<lparr>JobCollection.CompanyName = [], SourceURL = [], ScrapedAt = 0, Jobs = [], RawContent = []\<rparr>"

section \<open>Errors, log lines and calls\<close>

text \<open>
  A Go \<^verbatim>\<open>error\<close> is a value of \<open>error\<close>, and a result of type \<^verbatim>\<open>error\<close> is an
  \<open>error option\<close> with \<open>None\<close> for \<^verbatim>\<open>nil\<close>. \<open>External\<close> is an error made by a
  collaborator; the other two constructors are the two \<^verbatim>\<open>fmt.Errorf\<close> wrappers of
  \<^verbatim>\<open>processSingleURL\<close>.
\<close>

datatype error =
    External string
  | FailedToScrape string error
  | FailedToSave error

text \<open>One constructor for each \<^verbatim>\<open>log.Printf\<close> of the service, with its arguments.\<close>

datatype logline =
    StartingScrapeJob nat
  | ProcessingURL string
  | ErrorProcessingURL string error
  | CompletedScrapeJob
  | StartingToScrape string
  | FoundJobs nat string
  | NoPreviousJobData string error
  | RetrievedPrevious nat
  | DiffResults string nat nat nat
  | SendingNotification string
  | FailedToSendNotification error
  | SuccessfullySentNotification
  | NoChangesDetected string
  | SavingCurrent string
  | SuccessfullyProcessed string

text \<open>What the service does to the outside, in the order in which it does it.\<close>

datatype event =
    Log logline
  | CallScrape string
  | CallGetLatest string
  | CallNotify DiffResult
  | CallSave JobCollection

section \<open>The in-memory repository (internal/adapters/repository/memory_repository.go)\<close>

text \<open>
  The struct holds a Go map from source URL to collection and a lock. The model is
  sequential, so the lock has no counterpart; the \<^verbatim>\<open>context.Context\<close> argument is
  ignored by both methods and is left out.
\<close>

record MemoryRepository =
  collections :: "string \<rightharpoonup> JobCollection"

definition NewMemoryRepository :: MemoryRepository where
  "NewMemoryRepository = \<lparr>collections = Map.empty\<rparr>"

text \<open>Each method returns its result and the repository after the call.\<close>

definition SaveJobCollection ::
  "JobCollection \<Rightarrow> MemoryRepository \<Rightarrow> error option \<times> MemoryRepository" where
  "SaveJobCollection collection r =
     (None, r\<lparr>collections := (collections r)(JobCollection.SourceURL collection \<mapsto> collection)\<rparr>)"

definition GetLatestJobCollection ::
  "string \<Rightarrow> MemoryRepository \<Rightarrow> (JobCollection \<times> error option) \<times> MemoryRepository" where
  "GetLatestJobCollection url r =
     (case collections r url of
        None \<Rightarrow> ((JobCollection_zero, None), r)
      | Some collection \<Rightarrow> ((collection, None), r))"

text \<open>The repository after a sequence of saves, first save first.\<close>

fun saveAll :: "JobCollection list \<Rightarrow> MemoryRepository \<Rightarrow> MemoryRepository" where
  "saveAll [] r = r"
| "saveAll (c # cs) r = saveAll cs (snd (SaveJobCollection c r))"

section \<open>The diff (compareScrapeResults)\<close>

text \<open>First loop: \<^verbatim>\<open>prevJobMap[job.ID] = job\<close> for each job of the previous collection.\<close>

fun buildJobMap :: "Job list \<Rightarrow> (string \<rightharpoonup> Job) \<Rightarrow> (string \<rightharpoonup> Job)" where
  "buildJobMap [] m = m"
| "buildJobMap (job # jobs) m = buildJobMap jobs (m(ID job \<mapsto> job))"

text \<open>
  Second loop, over the current collection: it fills \<^verbatim>\<open>currJobMap\<close> and appends to
  \<^verbatim>\<open>result.NewJobs\<close> or \<^verbatim>\<open>result.UpdatedJobs\<close>.
\<close>

fun currentLoop ::
  "(string \<rightharpoonup> Job) \<Rightarrow> Job list \<Rightarrow> (string \<rightharpoonup> Job) \<Rightarrow> DiffResult
     \<Rightarrow> (string \<rightharpoonup> Job) \<times> DiffResult" where
  "currentLoop prevJobMap [] currJobMap result = (currJobMap, result)"
| "currentLoop prevJobMap (job # jobs) currJobMap result =
     (let currJobMap' = currJobMap(ID job \<mapsto> job) in
      case prevJobMap (ID job) of
        None \<Rightarrow>
          currentLoop prevJobMap jobs currJobMap' (result\<lparr>NewJobs := NewJobs result @ [job]\<rparr>)
      | Some prevJob \<Rightarrow>
          if Title job \<noteq> Title prevJob \<or>
             Description job \<noteq> Description prevJob \<or>
             Location job \<noteq> Location prevJob \<or>
             Department job \<noteq> Department prevJob
          then currentLoop prevJobMap jobs currJobMap'
                 (result\<lparr>UpdatedJobs := UpdatedJobs result @ [job]\<rparr>)
          else currentLoop prevJobMap jobs currJobMap' result)"

text \<open>Third loop, over the previous collection: the removed jobs.\<close>

fun removedLoop :: "(string \<rightharpoonup> Job) \<Rightarrow> Job list \<Rightarrow> DiffResult \<Rightarrow> DiffResult" where
  "removedLoop currJobMap [] result = result"
| "removedLoop currJobMap (prevJob # jobs) result =
     (case currJobMap (ID prevJob) of
        None \<Rightarrow>
          removedLoop currJobMap jobs (result\<lparr>RemovedJobs := RemovedJobs result @ [prevJob]\<rparr>)
      | Some _ \<Rightarrow> removedLoop currJobMap jobs result)"

definition compareScrapeResults :: "JobCollection \<Rightarrow> JobCollection \<Rightarrow> DiffResult" where
  "compareScrapeResults previous current =
     (let result = \<lparr>DiffResult.CompanyName = JobCollection.CompanyName current,
                    SourceURL = JobCollection.SourceURL current,
                    NewJobs = [], RemovedJobs = [], UpdatedJobs = []\<rparr>;
          prevJobMap = buildJobMap (Jobs previous) Map.empty;
          (currJobMap, result) = currentLoop prevJobMap (Jobs current) Map.empty result
      in removedLoop currJobMap (Jobs previous) result)"

section \<open>The service (internal/core/services/careerscraper_service.go)\<close>

text \<open>
  The three ports are interfaces; the service is given their methods as functions on the
  collaborator's own state (\<open>'s\<close> for the scraper, \<open>'n\<close> for the notifier, \<open>'r\<close> for the
  repository), each returning its Go results and the state after the call. The context
  argument is only handed on to the collaborators and is part of their state here.
\<close>

record ('s, 'n, 'r) CareerScraperService =
  scraper_Scrape :: "string \<Rightarrow> 's \<Rightarrow> (JobCollection \<times> error option) \<times> 's"
  notifier_NotifyNewJobs :: "DiffResult \<Rightarrow> 'n \<Rightarrow> error option \<times> 'n"
  repository_SaveJobCollection :: "JobCollection \<Rightarrow> 'r \<Rightarrow> error option \<times> 'r"
  repository_GetLatestJobCollection :: "string \<Rightarrow> 'r \<Rightarrow> (JobCollection \<times> error option) \<times> 'r"
  urls :: "string list"

text \<open>The state a pass runs in: the three collaborators and the trace of events so far.\<close>

record ('s, 'n, 'r) world =
  scraperState :: 's
  notifierState :: 'n
  repositoryState :: 'r
  trace :: "event list"

definition emit :: "event \<Rightarrow> ('s, 'n, 'r) world \<Rightarrow> ('s, 'n, 'r) world" where
  "emit e w = w\<lparr>trace := trace w @ [e]\<rparr>"

definition Scrape ::
  "('s, 'n, 'r) CareerScraperService \<Rightarrow> string \<Rightarrow> ('s, 'n, 'r) world
     \<Rightarrow> (JobCollection \<times> error option) \<times> ('s, 'n, 'r) world" where
  "Scrape s url w =
     (let (res, st) = scraper_Scrape s url (scraperState w)
      in (res, emit (CallScrape url) (w\<lparr>scraperState := st\<rparr>)))"

definition NotifyNewJobs ::
  "('s, 'n, 'r) CareerScraperService \<Rightarrow> DiffResult \<Rightarrow> ('s, 'n, 'r) world
     \<Rightarrow> error option \<times> ('s, 'n, 'r) world" where
  "NotifyNewJobs s diff w =
     (let (err, st) = notifier_NotifyNewJobs s diff (notifierState w)
      in (err, emit (CallNotify diff) (w\<lparr>notifierState := st\<rparr>)))"

definition Save ::
  "('s, 'n, 'r) CareerScraperService \<Rightarrow> JobCollection \<Rightarrow> ('s, 'n, 'r) world
     \<Rightarrow> error option \<times> ('s, 'n, 'r) world" where
  "Save s collection w =
     (let (err, st) = repository_SaveJobCollection s collection (repositoryState w)
      in (err, emit (CallSave collection) (w\<lparr>repositoryState := st\<rparr>)))"

definition GetLatest ::
  "('s, 'n, 'r) CareerScraperService \<Rightarrow> string \<Rightarrow> ('s, 'n, 'r) world
     \<Rightarrow> (JobCollection \<times> error option) \<times> ('s, 'n, 'r) world" where
  "GetLatest s url w =
     (let (res, st) = repository_GetLatestJobCollection s url (repositoryState w)
      in (res, emit (CallGetLatest url) (w\<lparr>repositoryState := st\<rparr>)))"

text \<open>The \<^verbatim>\<open>if\<close> on the three lengths and the notification inside it.\<close>

definition notifyChanges ::
  "('s, 'n, 'r) CareerScraperService \<Rightarrow> string \<Rightarrow> DiffResult \<Rightarrow> ('s, 'n, 'r) world
     \<Rightarrow> ('s, 'n, 'r) world" where
  "notifyChanges s url diff w =
     (if length (NewJobs diff) > 0 \<or> length (RemovedJobs diff) > 0 \<or>
         length (UpdatedJobs diff) > 0
      then
        (let (err, w1) = NotifyNewJobs s diff (emit (Log (SendingNotification url)) w)
         in case err of
              Some e \<Rightarrow> emit (Log (FailedToSendNotification e)) w1
            | None \<Rightarrow> emit (Log SuccessfullySentNotification) w1)
      else emit (Log (NoChangesDetected url)) w)"

definition processSingleURL ::
  "('s, 'n, 'r) CareerScraperService \<Rightarrow> string \<Rightarrow> ('s, 'n, 'r) world
     \<Rightarrow> error option \<times> ('s, 'n, 'r) world" where
  "processSingleURL s url w =
     (let ((currentJobs, err), w1) = Scrape s url (emit (Log (StartingToScrape url)) w)
      in case err of
           Some e \<Rightarrow> (Some (FailedToScrape url e), w1)
         | None \<Rightarrow>
             (let w2 = emit (Log (FoundJobs (length (Jobs currentJobs)) url)) w1;
                  ((previousJobs, err), w3) = GetLatest s url w2
              in case err of
                   Some e \<Rightarrow> Save s currentJobs (emit (Log (NoPreviousJobData url e)) w3)
                 | None \<Rightarrow>
                     (let w4 = emit (Log (RetrievedPrevious (length (Jobs previousJobs)))) w3;
                          diff = compareScrapeResults previousJobs currentJobs;
                          w5 = emit (Log (DiffResults url (length (NewJobs diff))
                                            (length (UpdatedJobs diff))
                                            (length (RemovedJobs diff)))) w4;
                          w6 = notifyChanges s url diff w5;
                          (err, w7) = Save s currentJobs (emit (Log (SavingCurrent url)) w6)
                      in case err of
                           Some e \<Rightarrow> (Some (FailedToSave e), w7)
                         | None \<Rightarrow> (None, emit (Log (SuccessfullyProcessed url)) w7))))"

text \<open>The body of the \<^verbatim>\<open>for\<close> loop of \<^verbatim>\<open>ScrapeAndNotify\<close>, and the loop.\<close>

definition processNext ::
  "('s, 'n, 'r) CareerScraperService \<Rightarrow> string \<Rightarrow> ('s, 'n, 'r) world \<Rightarrow> ('s, 'n, 'r) world" where
  "processNext s url w =
     (let (err, w1) = processSingleURL s url (emit (Log (ProcessingURL url)) w)
      in case err of
           Some e \<Rightarrow> emit (Log (ErrorProcessingURL url e)) w1
         | None \<Rightarrow> w1)"

fun urlLoop ::
  "('s, 'n, 'r) CareerScraperService \<Rightarrow> string list \<Rightarrow> ('s, 'n, 'r) world \<Rightarrow> ('s, 'n, 'r) world" where
  "urlLoop s [] w = w"
| "urlLoop s (url # rest) w = urlLoop s rest (processNext s url w)"

definition ScrapeAndNotify ::
  "('s, 'n, 'r) CareerScraperService \<Rightarrow> ('s, 'n, 'r) world \<Rightarrow> error option \<times> ('s, 'n, 'r) world" where
  "ScrapeAndNotify s w =
     (let w1 = emit (Log (StartingScrapeJob (length (urls s)))) w;
          w2 = urlLoop s (urls s) w1
      in (None, emit (Log CompletedScrapeJob) w2))"

text \<open>The calls among the events: everything but the log lines.\<close>

fun isCall :: "event \<Rightarrow> bool" where
  "isCall (Log _) = False"
| "isCall _ = True"

definition calls :: "event list \<Rightarrow> event list" where
  "calls es = filter isCall es"

text \<open>The URLs of the \<^verbatim>\<open>Scrape\<close> calls among the events, in order.\<close>

fun scrapedURLs :: "event list \<Rightarrow> string list" where
  "scrapedURLs [] = []"
| "scrapedURLs (CallScrape url # es) = url # scrapedURLs es"
| "scrapedURLs (_ # es) = scrapedURLs es"

text \<open>
  The log line that opens the branch \<^verbatim>\<open>if err != nil\<close> after
  \<^verbatim>\<open>GetLatestJobCollection\<close>: an event is one of these exactly when that branch was taken.
\<close>

fun isLookupFailure :: "event \<Rightarrow> bool" where
  "isLookupFailure (Log (NoPreviousJobData _ _)) = True"
| "isLookupFailure _ = False"

text \<open>The constructor: the repository is given by its two methods.\<close>

definition NewCareerScraperService ::
  "(string \<Rightarrow> 's \<Rightarrow> (JobCollection \<times> error option) \<times> 's) \<Rightarrow>
   (DiffResult \<Rightarrow> 'n \<Rightarrow> error option \<times> 'n) \<Rightarrow>
   (JobCollection \<Rightarrow> 'r \<Rightarrow> error option \<times> 'r) \<Rightarrow>
   (string \<Rightarrow> 'r \<Rightarrow> (JobCollection \<times> error option) \<times> 'r) \<Rightarrow>
   string list \<Rightarrow> ('s, 'n, 'r) CareerScraperService" where
  "NewCareerScraperService scraper notifier save getLatest us =
     \<lparr>scraper_Scrape = scraper, notifier_NotifyNewJobs = notifier,
      repository_SaveJobCollection = save, repository_GetLatestJobCollection = getLatest,
      urls = us\<rparr>"

section \<open>Notions used to state the properties\<close>

text \<open>
  The job that \<^verbatim>\<open>prevJobMap\<close> holds for an id after the first loop: the last job of the
  list with that id (the only one when ids do not repeat).
\<close>

definition lastWithID :: "Job list \<Rightarrow> string \<Rightarrow> Job option" where
  "lastWithID jobs i = List.find (\<lambda>p. ID p = i) (rev jobs)"

text \<open>The condition of the \<^verbatim>\<open>else if\<close> of the second loop.\<close>

definition trackedFieldsDiffer :: "Job \<Rightarrow> Job \<Rightarrow> bool" where
  "trackedFieldsDiffer job prevJob \<longleftrightarrow>
     Title job \<noteq> Title prevJob \<or> Description job \<noteq> Description prevJob \<or>
     Location job \<noteq> Location prevJob \<or> Department job \<noteq> Department prevJob"

section \<open>Collaborators and data for concrete runs\<close>

definition exampleJob :: "string \<Rightarrow> string \<Rightarrow> Job" where
  "exampleJob i t =
     \<lparr>ID = i, Title = t, Description = ''d'', Location = ''Remote'', Department = ''Eng'',
      URL = ''u'', PostedDate = 0, ScrapedAt = 0\<rparr>"

definition exampleSnapshot :: "string \<Rightarrow> Job list \<Rightarrow> JobCollection" where
  "exampleSnapshot url jobs =
     \<lparr>JobCollection.CompanyName = ''Acme'', SourceURL = url, ScrapedAt = 0, Jobs = jobs,
      RawContent = []\<rparr>"

text \<open>A scraper that serves pages from a table and fails on any other URL.\<close>

definition tableScraper ::
  "(string \<times> JobCollection) list \<Rightarrow> string \<Rightarrow> unit \<Rightarrow> (JobCollection \<times> error option) \<times> unit" where
  "tableScraper pages url st =
     (case map_of pages url of
        None \<Rightarrow> ((JobCollection_zero, Some (External ''fetch failed'')), st)
      | Some c \<Rightarrow> ((c, None), st))"

definition failingNotifier :: "DiffResult \<Rightarrow> unit \<Rightarrow> error option \<times> unit" where
  "failingNotifier diff st = (Some (External ''delivery failed''), st)"

definition silentNotifier :: "DiffResult \<Rightarrow> unit \<Rightarrow> error option \<times> unit" where
  "silentNotifier diff st = (None, st)"

definition exampleWorld :: "'r \<Rightarrow> (unit, unit, 'r) world" where
  "exampleWorld r = \<lparr>scraperState = (), notifierState = (), repositoryState = r, trace = []\<rparr>"

section \<open>Facts about the repository\<close>

lemma saveAll_other:
  "url \<notin> JobCollection.SourceURL ` set cs \<Longrightarrow> collections (saveAll cs r) url = collections r url"
  by (induction cs arbitrary: r) (auto simp: SaveJobCollection_def)

section \<open>Facts about the three loops of the diff\<close>

lemma find_append_case:
  "List.find P (xs @ ys) = (case List.find P xs of None \<Rightarrow> List.find P ys | Some x \<Rightarrow> Some x)"
  by (induction xs) simp_all

lemma find_Some_member: "List.find P xs = Some x \<Longrightarrow> x \<in> set xs \<and> P x"
  by (induction xs) (auto split: if_splits)

lemma buildJobMap_lookup:
  "buildJobMap jobs m i = (case lastWithID jobs i of None \<Rightarrow> m i | Some p \<Rightarrow> Some p)"
  by (induction jobs arbitrary: m)
     (auto simp: lastWithID_def find_append_case split: option.splits)

lemma lastWithID_None: "lastWithID jobs i = None \<longleftrightarrow> i \<notin> ID ` set jobs"
  by (auto simp: lastWithID_def find_None_iff)

lemma lastWithID_Some: "lastWithID jobs i = Some p \<Longrightarrow> p \<in> set jobs \<and> ID p = i"
  using find_Some_member [of "\<lambda>p. ID p = i" "rev jobs" p] by (simp add: lastWithID_def)

lemma buildJobMap_empty: "buildJobMap jobs Map.empty i = lastWithID jobs i"
  by (simp add: buildJobMap_lookup split: option.splits)

lemma currentLoop_fst: "fst (currentLoop pm jobs cm r) = buildJobMap jobs cm"
  by (induction jobs arbitrary: cm r) (simp_all add: Let_def split: option.splits)

lemma currentLoop_New:
  "NewJobs (snd (currentLoop pm jobs cm r)) = NewJobs r @ filter (\<lambda>j. pm (ID j) = None) jobs"
  by (induction jobs arbitrary: cm r) (simp_all add: Let_def split: option.splits)

lemma currentLoop_Updated:
  "UpdatedJobs (snd (currentLoop pm jobs cm r))
     = UpdatedJobs r @
       filter (\<lambda>j. case pm (ID j) of None \<Rightarrow> False | Some p \<Rightarrow> trackedFieldsDiffer j p) jobs"
  by (induction jobs arbitrary: cm r)
     (simp_all add: Let_def trackedFieldsDiffer_def split: option.splits)

lemma currentLoop_Removed:
  "RemovedJobs (snd (currentLoop pm jobs cm r)) = RemovedJobs r"
  by (induction jobs arbitrary: cm r) (simp_all add: Let_def split: option.splits)

lemma currentLoop_header:
  "DiffResult.CompanyName (snd (currentLoop pm jobs cm r)) = DiffResult.CompanyName r \<and>
   DiffResult.SourceURL (snd (currentLoop pm jobs cm r)) = DiffResult.SourceURL r"
  by (induction jobs arbitrary: cm r) (simp_all add: Let_def split: option.splits)

lemma removedLoop_Removed:
  "RemovedJobs (removedLoop cm jobs r) = RemovedJobs r @ filter (\<lambda>p. cm (ID p) = None) jobs"
  by (induction jobs arbitrary: r) (simp_all split: option.splits)

lemma removedLoop_others:
  "NewJobs (removedLoop cm jobs r) = NewJobs r \<and>
   UpdatedJobs (removedLoop cm jobs r) = UpdatedJobs r \<and>
   DiffResult.CompanyName (removedLoop cm jobs r) = DiffResult.CompanyName r \<and>
   DiffResult.SourceURL (removedLoop cm jobs r) = DiffResult.SourceURL r"
  by (induction jobs arbitrary: r) (simp_all split: option.splits)

lemma distinct_ids_same:
  "distinct (map ID jobs) \<Longrightarrow> j \<in> set jobs \<Longrightarrow> k \<in> set jobs \<Longrightarrow> ID j = ID k \<Longrightarrow> j = k"
  using inj_onD [of ID "set jobs" j k] by (simp add: distinct_map)

lemma lastWithID_unique:
  assumes "p \<in> set jobs" and "\<forall>q \<in> set jobs. ID q = ID p \<longrightarrow> q = p"
  shows "lastWithID jobs (ID p) = Some p"
proof (cases "lastWithID jobs (ID p)")
  case None
  with assms(1) show ?thesis by (auto simp: lastWithID_None)
next
  case (Some q)
  from lastWithID_Some [OF Some] assms(2) have "q = p" by blast
  with Some show ?thesis by simp
qed

text \<open>The three lists of the result, each as a filter of the list its loop runs over.\<close>

lemma compare_New:
  "NewJobs (compareScrapeResults previous current)
     = filter (\<lambda>j. ID j \<notin> ID ` set (Jobs previous)) (Jobs current)"
  by (simp add: compareScrapeResults_def Let_def split_beta removedLoop_others currentLoop_New
      buildJobMap_empty lastWithID_None)

lemma compare_Updated:
  "UpdatedJobs (compareScrapeResults previous current)
     = filter (\<lambda>j. case lastWithID (Jobs previous) (ID j) of
                      None \<Rightarrow> False | Some p \<Rightarrow> trackedFieldsDiffer j p) (Jobs current)"
  by (simp add: compareScrapeResults_def Let_def split_beta removedLoop_others
      currentLoop_Updated buildJobMap_empty)

lemma compare_Removed:
  "RemovedJobs (compareScrapeResults previous current)
     = filter (\<lambda>p. ID p \<notin> ID ` set (Jobs current)) (Jobs previous)"
  by (simp add: compareScrapeResults_def Let_def split_beta removedLoop_Removed
      currentLoop_Removed currentLoop_fst buildJobMap_empty lastWithID_None)

lemma compare_header:
  "DiffResult.CompanyName (compareScrapeResults previous current) = JobCollection.CompanyName current \<and>
   DiffResult.SourceURL (compareScrapeResults previous current) = JobCollection.SourceURL current"
  by (simp add: compareScrapeResults_def Let_def split_beta removedLoop_others currentLoop_header)

lemma count_list_filter_other:
  "i \<notin> S \<Longrightarrow> count_list (map f (filter (\<lambda>p. f p \<notin> S) xs)) i = count_list (map f xs) i"
  by (induction xs) auto

lemma count_list_distinct_member:
  "distinct xs \<Longrightarrow> x \<in> set xs \<Longrightarrow> count_list xs x = 1"
  by (induction xs) (auto simp: count_list_0_iff)

section \<open>Facts about the trace of a pass\<close>

lemmas port_defs = Scrape_def GetLatest_def Save_def NotifyNewJobs_def emit_def

lemmas run_defs = ScrapeAndNotify_def processNext_def processSingleURL_def notifyChanges_def
  compareScrapeResults_def SaveJobCollection_def GetLatestJobCollection_def port_defs Let_def

lemmas example_defs = exampleJob_def exampleSnapshot_def tableScraper_def failingNotifier_def
  silentNotifier_def exampleWorld_def NewCareerScraperService_def NewMemoryRepository_def
  JobCollection_zero_def

lemma calls_append [simp]: "calls (xs @ ys) = calls xs @ calls ys"
  by (simp add: calls_def)

lemma calls_simps [simp]:
  "calls [] = []"
  "calls (Log l # es) = calls es"
  "calls (CallScrape u # es) = CallScrape u # calls es"
  "calls (CallGetLatest u # es) = CallGetLatest u # calls es"
  "calls (CallNotify d # es) = CallNotify d # calls es"
  "calls (CallSave c # es) = CallSave c # calls es"
  by (simp_all add: calls_def)

lemma scrapedURLs_append [simp]: "scrapedURLs (xs @ ys) = scrapedURLs xs @ scrapedURLs ys"
  by (induction xs rule: scrapedURLs.induct) simp_all

lemma processSingleURL_scrape_error:
  assumes "scraper_Scrape s url (scraperState w) = ((c, Some e), st)"
  shows "processSingleURL s url w =
           (Some (FailedToScrape url e),
            w\<lparr>scraperState := st, trace := trace w @ [Log (StartingToScrape url), CallScrape url]\<rparr>)"
  using assms by (simp add: processSingleURL_def port_defs)

lemma notifyChanges_error:
  assumes "NewJobs d \<noteq> [] \<or> RemovedJobs d \<noteq> [] \<or> UpdatedJobs d \<noteq> []"
    and "notifier_NotifyNewJobs s d (notifierState w) = (Some e, ns)"
  shows "notifyChanges s url d w =
           w\<lparr>notifierState := ns,
              trace := trace w @ [Log (SendingNotification url), CallNotify d,
                                  Log (FailedToSendNotification e)]\<rparr>"
  using assms by (auto simp add: notifyChanges_def port_defs)

lemma notifyChanges_scraped:
  "scrapedURLs (trace (notifyChanges s url d w)) = scrapedURLs (trace w)"
  by (simp add: notifyChanges_def port_defs split: prod.splits option.splits)

lemma processSingleURL_scraped:
  "scrapedURLs (trace (snd (processSingleURL s url w))) = scrapedURLs (trace w) @ [url]"
  by (simp add: processSingleURL_def Scrape_def GetLatest_def Save_def emit_def Let_def
      notifyChanges_scraped split: prod.splits option.splits)

lemma processNext_scraped:
  "scrapedURLs (trace (processNext s url w)) = scrapedURLs (trace w) @ [url]"
proof (cases "processSingleURL s url (emit (Log (ProcessingURL url)) w)")
  case (Pair err w1)
  with processSingleURL_scraped [of s url "emit (Log (ProcessingURL url)) w"]
  show ?thesis by (simp add: processNext_def emit_def split: option.splits)
qed

lemma urlLoop_scraped:
  "scrapedURLs (trace (urlLoop s us w)) = scrapedURLs (trace w) @ us"
  by (induction us arbitrary: w) (simp_all add: processNext_scraped)

lemma urlLoop_append: "urlLoop s (us @ vs) w = urlLoop s vs (urlLoop s us w)"
  by (induction us arbitrary: w) simp_all

lemma notifyChanges_lookup:
  "filter isLookupFailure (trace (notifyChanges s url d w)) = filter isLookupFailure (trace w)"
  by (simp add: notifyChanges_def port_defs split: prod.splits option.splits)

lemma memory_processSingleURL_lookup:
  assumes "repository_GetLatestJobCollection s = GetLatestJobCollection"
  shows "filter isLookupFailure (trace (snd (processSingleURL s url w)))
           = filter isLookupFailure (trace w)"
  using assms
  by (simp add: processSingleURL_def Scrape_def GetLatest_def Save_def emit_def Let_def
      GetLatestJobCollection_def notifyChanges_lookup split: prod.splits option.splits)

lemma memory_processNext_lookup:
  assumes "repository_GetLatestJobCollection s = GetLatestJobCollection"
  shows "filter isLookupFailure (trace (processNext s url w)) = filter isLookupFailure (trace w)"
proof (cases "processSingleURL s url (emit (Log (ProcessingURL url)) w)")
  case (Pair err w1)
  with memory_processSingleURL_lookup [OF assms, of url "emit (Log (ProcessingURL url)) w"]
  show ?thesis by (simp add: processNext_def emit_def split: option.splits)
qed

lemma memory_urlLoop_lookup:
  assumes "repository_GetLatestJobCollection s = GetLatestJobCollection"
  shows "filter isLookupFailure (trace (urlLoop s us w)) = filter isLookupFailure (trace w)"
  by (induction us arbitrary: w) (simp_all add: memory_processNext_lookup [OF assms])

text \<open>A pass only appends to the trace, and the loop over the URLs is a fold.\<close>

lemma notifyChanges_grows: "\<exists>es. trace (notifyChanges s url d w) = trace w @ es"
  by (simp add: notifyChanges_def port_defs split: prod.splits option.splits)

lemma processSingleURL_grows: "\<exists>es. trace (snd (processSingleURL s url w)) = trace w @ es"
proof -
  obtain current err st where scrape: "scraper_Scrape s url (scraperState w) = ((current, err), st)"
    by (metis prod.exhaust)
  show ?thesis
  proof (cases err)
    case (Some e)
    with scrape show ?thesis by (simp add: processSingleURL_scrape_error)
  next
    case None
    obtain previous err' rs
      where lookup: "repository_GetLatestJobCollection s url (repositoryState w) = ((previous, err'), rs)"
      by (metis prod.exhaust)
    show ?thesis
    proof (cases err')
      case (Some e)
      with scrape None lookup show ?thesis
        by (simp add: processSingleURL_def port_defs Let_def split: prod.splits)
    next
      case no_err: None
      let ?d = "compareScrapeResults previous current"
      let ?w5 = "w\<lparr>scraperState := st, repositoryState := rs,
               trace := trace w @ [Log (StartingToScrape url), CallScrape url,
                 Log (FoundJobs (length (Jobs current)) url), CallGetLatest url,
                 Log (RetrievedPrevious (length (Jobs previous))),
                 Log (DiffResults url (length (NewJobs ?d)) (length (UpdatedJobs ?d))
                        (length (RemovedJobs ?d)))]\<rparr>"
      obtain es where es: "trace (notifyChanges s url ?d ?w5) = trace ?w5 @ es"
        using notifyChanges_grows by blast
      with scrape None lookup no_err show ?thesis
        by (simp add: processSingleURL_def port_defs Let_def split: prod.splits option.splits)
    qed
  qed
qed

lemma processNext_case:
  "processNext s url w =
     (case processSingleURL s url (emit (Log (ProcessingURL url)) w) of
        (None, w1) \<Rightarrow> w1
      | (Some e, w1) \<Rightarrow> emit (Log (ErrorProcessingURL url e)) w1)"
  by (simp add: processNext_def split: prod.splits option.splits)

lemma processNext_grows:
  "\<exists>es. trace (processNext s url w)
          = trace (snd (processSingleURL s url (emit (Log (ProcessingURL url)) w))) @ es"
  by (cases "processSingleURL s url (emit (Log (ProcessingURL url)) w)")
     (simp add: processNext_def emit_def split: option.splits)

lemma urlLoop_grows: "\<exists>es. trace (urlLoop s us w) = trace w @ es"
proof (induction us arbitrary: w)
  case Nil
  show ?case by simp
next
  case (Cons url us)
  obtain e1 where e1: "trace (processNext s url w)
      = trace (snd (processSingleURL s url (emit (Log (ProcessingURL url)) w))) @ e1"
    using processNext_grows by blast
  obtain e2 where e2: "trace (snd (processSingleURL s url (emit (Log (ProcessingURL url)) w)))
      = trace (emit (Log (ProcessingURL url)) w) @ e2"
    using processSingleURL_grows by blast
  obtain e3 where e3: "trace (urlLoop s us (processNext s url w)) = trace (processNext s url w) @ e3"
    using Cons.IH by blast
  from e1 e2 e3 show ?case by (simp add: emit_def)
qed

lemma urlLoop_foldl:
  "urlLoop s us w =
     foldl (\<lambda>w' url. case processSingleURL s url (emit (Log (ProcessingURL url)) w') of
                         (None, w1) \<Rightarrow> w1
                       | (Some e, w1) \<Rightarrow> emit (Log (ErrorProcessingURL url e)) w1) w us"
  by (induction us arbitrary: w) (simp_all add: processNext_case)

lemma pass_contains_run:
  assumes "urls s = us @ url # vs"
  shows "\<exists>es. trace (snd (ScrapeAndNotify s w))
           = trace (snd (processSingleURL s url (emit (Log (ProcessingURL url))
               (urlLoop s us (emit (Log (StartingScrapeJob (length (urls s)))) w))))) @ es"
proof -
  let ?pre = "urlLoop s us (emit (Log (StartingScrapeJob (length (urls s)))) w)"
  obtain e1 where e1: "trace (processNext s url ?pre)
      = trace (snd (processSingleURL s url (emit (Log (ProcessingURL url)) ?pre))) @ e1"
    using processNext_grows by blast
  obtain e2 where e2: "trace (urlLoop s vs (processNext s url ?pre))
      = trace (processNext s url ?pre) @ e2"
    using urlLoop_grows by blast
  have "snd (ScrapeAndNotify s w)
          = emit (Log CompletedScrapeJob) (urlLoop s vs (processNext s url ?pre))"
    by (simp add: ScrapeAndNotify_def Let_def assms urlLoop_append)
  with e1 e2 show ?thesis by (simp add: emit_def)
qed

section \<open>First observation of a source\<close>

text \<open>
  C1. A pass over a URL that the repository has no snapshot for is meant to save the
  scraped collection and to send no notification. The in-memory repository answers
  such a lookup with the zero collection and a nil error, so the pass does not take the
  branch that saves without notifying: it diffs the scraped collection against the empty
  one, every scraped job is new, and \<^verbatim>\<open>NotifyNewJobs\<close> is called. Here the repository is
  new, the only URL is \<open>''a''\<close> and the page has one job: the calls of the pass are
  Scrape, GetLatest, Notify (with that job as new) and Save.
\<close>

theorem first_observation_notifies:
  "collections NewMemoryRepository ''a'' = None \<and>
   calls (trace (snd (ScrapeAndNotify
          (NewCareerScraperService
             (tableScraper [(''a'', exampleSnapshot ''a'' [exampleJob ''1'' ''Engineer''])])
             silentNotifier SaveJobCollection GetLatestJobCollection [''a''])
          (exampleWorld NewMemoryRepository))))
   = [CallScrape ''a'', CallGetLatest ''a'',
      CallNotify \<lparr>DiffResult.CompanyName = ''Acme'', SourceURL = ''a'',
                   NewJobs = [exampleJob ''1'' ''Engineer''], RemovedJobs = [],
                   UpdatedJobs = []\<rparr>,
      CallSave (exampleSnapshot ''a'' [exampleJob ''1'' ''Engineer''])]"
  by (simp add: run_defs example_defs)

section \<open>The diff partitions the job ids\<close>

text \<open>
  C2. In the result of comparing a previous and a current collection, every job id of
  the current collection is in exactly one of: the ids of \<^verbatim>\<open>NewJobs\<close>, the ids of
  \<^verbatim>\<open>UpdatedJobs\<close>, or no list of the result at all (unchanged). An id of the previous
  collection that the current one lacks occurs among the ids of \<^verbatim>\<open>RemovedJobs\<close> as many
  times as it occurs in the previous collection, hence exactly once when the ids of the
  previous collection are distinct. The ids of the three lists are pairwise disjoint.
  None of this needs the two collections to have the same source URL.
\<close>

theorem diff_partition:
  "(\<forall>i \<in> ID ` set (Jobs current).
      (i \<in> ID ` set (NewJobs (compareScrapeResults previous current)) \<and>
       i \<notin> ID ` set (UpdatedJobs (compareScrapeResults previous current)) \<and>
       i \<notin> ID ` set (RemovedJobs (compareScrapeResults previous current))) \<or>
      (i \<notin> ID ` set (NewJobs (compareScrapeResults previous current)) \<and>
       i \<in> ID ` set (UpdatedJobs (compareScrapeResults previous current)) \<and>
       i \<notin> ID ` set (RemovedJobs (compareScrapeResults previous current))) \<or>
      (i \<notin> ID ` set (NewJobs (compareScrapeResults previous current)) \<and>
       i \<notin> ID ` set (UpdatedJobs (compareScrapeResults previous current)) \<and>
       i \<notin> ID ` set (RemovedJobs (compareScrapeResults previous current)))) \<and>
   (\<forall>i \<in> ID ` set (Jobs previous) - ID ` set (Jobs current).
      count_list (map ID (RemovedJobs (compareScrapeResults previous current))) i
        = count_list (map ID (Jobs previous)) i \<and>
      (distinct (map ID (Jobs previous)) \<longrightarrow>
         count_list (map ID (RemovedJobs (compareScrapeResults previous current))) i = 1)) \<and>
   ID ` set (NewJobs (compareScrapeResults previous current)) \<inter>
     ID ` set (UpdatedJobs (compareScrapeResults previous current)) = {} \<and>
   ID ` set (NewJobs (compareScrapeResults previous current)) \<inter>
     ID ` set (RemovedJobs (compareScrapeResults previous current)) = {} \<and>
   ID ` set (UpdatedJobs (compareScrapeResults previous current)) \<inter>
     ID ` set (RemovedJobs (compareScrapeResults previous current)) = {}"
proof -
  let ?d = "compareScrapeResults previous current"
  have nu: "ID ` set (NewJobs ?d) \<inter> ID ` set (UpdatedJobs ?d) = {}"
    by (auto simp: compare_New compare_Updated lastWithID_None [symmetric] split: option.splits)
  have r: "ID ` set (RemovedJobs ?d) \<inter> ID ` set (Jobs current) = {}"
    by (auto simp: compare_Removed)
  have n: "ID ` set (NewJobs ?d) \<subseteq> ID ` set (Jobs current)"
    by (auto simp: compare_New)
  have u: "ID ` set (UpdatedJobs ?d) \<subseteq> ID ` set (Jobs current)"
    by (auto simp: compare_Updated)
  have cnt: "count_list (map ID (RemovedJobs ?d)) i = count_list (map ID (Jobs previous)) i"
    if "i \<notin> ID ` set (Jobs current)" for i
    using that by (simp add: compare_Removed count_list_filter_other)
  have one: "count_list (map ID (Jobs previous)) i = 1"
    if "i \<in> ID ` set (Jobs previous)" "distinct (map ID (Jobs previous))" for i
    using that by (simp add: count_list_distinct_member)
  have a: "\<forall>i \<in> ID ` set (Jobs current).
      (i \<in> ID ` set (NewJobs ?d) \<and> i \<notin> ID ` set (UpdatedJobs ?d) \<and>
       i \<notin> ID ` set (RemovedJobs ?d)) \<or>
      (i \<notin> ID ` set (NewJobs ?d) \<and> i \<in> ID ` set (UpdatedJobs ?d) \<and>
       i \<notin> ID ` set (RemovedJobs ?d)) \<or>
      (i \<notin> ID ` set (NewJobs ?d) \<and> i \<notin> ID ` set (UpdatedJobs ?d) \<and>
       i \<notin> ID ` set (RemovedJobs ?d))"
    using nu r by blast
  have b: "\<forall>i \<in> ID ` set (Jobs previous) - ID ` set (Jobs current).
      count_list (map ID (RemovedJobs ?d)) i = count_list (map ID (Jobs previous)) i \<and>
      (distinct (map ID (Jobs previous)) \<longrightarrow> count_list (map ID (RemovedJobs ?d)) i = 1)"
    using cnt one by simp
  have c: "ID ` set (NewJobs ?d) \<inter> ID ` set (RemovedJobs ?d) = {}"
    using r n by blast
  have d: "ID ` set (UpdatedJobs ?d) \<inter> ID ` set (RemovedJobs ?d) = {}"
    using r u by blast
  from a b nu c d show ?thesis by (intro conjI)
qed

text \<open>
  An instance: the previous collection has jobs 1 and 3, the current one has job 1 with a
  new title and job 2. Id 1 is among the updated ids only, and id 3, which the current
  collection lacks, is among the removed ids once.
\<close>

theorem diff_partition_witness:
  "''1'' \<in> ID ` set (Jobs (exampleSnapshot ''a''
       [exampleJob ''1'' ''Senior Engineer'', exampleJob ''2'' ''Designer''])) \<and>
   ''1'' \<in> ID ` set (UpdatedJobs (compareScrapeResults
       (exampleSnapshot ''a'' [exampleJob ''1'' ''Engineer'', exampleJob ''3'' ''Writer''])
       (exampleSnapshot ''a'' [exampleJob ''1'' ''Senior Engineer'', exampleJob ''2'' ''Designer'']))) \<and>
   ''1'' \<notin> ID ` set (NewJobs (compareScrapeResults
       (exampleSnapshot ''a'' [exampleJob ''1'' ''Engineer'', exampleJob ''3'' ''Writer''])
       (exampleSnapshot ''a'' [exampleJob ''1'' ''Senior Engineer'', exampleJob ''2'' ''Designer'']))) \<and>
   ''1'' \<notin> ID ` set (RemovedJobs (compareScrapeResults
       (exampleSnapshot ''a'' [exampleJob ''1'' ''Engineer'', exampleJob ''3'' ''Writer''])
       (exampleSnapshot ''a'' [exampleJob ''1'' ''Senior Engineer'', exampleJob ''2'' ''Designer'']))) \<and>
   ''3'' \<in> ID ` set (Jobs (exampleSnapshot ''a''
                [exampleJob ''1'' ''Engineer'', exampleJob ''3'' ''Writer'']))
           - ID ` set (Jobs (exampleSnapshot ''a''
                [exampleJob ''1'' ''Senior Engineer'', exampleJob ''2'' ''Designer''])) \<and>
   distinct (map ID (Jobs (exampleSnapshot ''a''
       [exampleJob ''1'' ''Engineer'', exampleJob ''3'' ''Writer'']))) \<and>
   count_list (map ID (RemovedJobs (compareScrapeResults
       (exampleSnapshot ''a'' [exampleJob ''1'' ''Engineer'', exampleJob ''3'' ''Writer''])
       (exampleSnapshot ''a'' [exampleJob ''1'' ''Senior Engineer'', exampleJob ''2'' ''Designer''])))) ''3''
     = 1"
proof -
  let ?prev = "exampleSnapshot ''a'' [exampleJob ''1'' ''Engineer'', exampleJob ''3'' ''Writer'']"
  let ?cur = "exampleSnapshot ''a'' [exampleJob ''1'' ''Senior Engineer'', exampleJob ''2'' ''Designer'']"
  let ?d = "compareScrapeResults ?prev ?cur"
  have one: "''1'' \<in> ID ` set (Jobs ?cur)"
    by (simp add: exampleSnapshot_def exampleJob_def)
  have upd: "''1'' \<in> ID ` set (UpdatedJobs ?d)"
    by (simp add: compare_Updated lastWithID_def trackedFieldsDiffer_def
        exampleSnapshot_def exampleJob_def)
  have three: "''3'' \<in> ID ` set (Jobs ?prev) - ID ` set (Jobs ?cur)"
    by (simp add: exampleSnapshot_def exampleJob_def)
  have dist: "distinct (map ID (Jobs ?prev))"
    by (simp add: exampleSnapshot_def exampleJob_def)
  note p = diff_partition [of ?cur ?prev]
  from bspec [OF conjunct1 [OF p] one] upd
  have a: "''1'' \<notin> ID ` set (NewJobs ?d) \<and> ''1'' \<notin> ID ` set (RemovedJobs ?d)"
    by blast
  from bspec [OF conjunct1 [OF conjunct2 [OF p]] three] dist
  have b: "count_list (map ID (RemovedJobs ?d)) ''3'' = 1"
    by blast
  from one upd a three dist b show ?thesis by (intro conjI) simp_all
qed

text \<open>
  Where the previous collection lists an id twice, the removed list has it twice: two
  previous jobs with id 3, none in the current collection, and two entries for id 3 in
  \<^verbatim>\<open>RemovedJobs\<close>, the collections having the same source URL.
\<close>

theorem diff_partition_counterexample:
  "JobCollection.SourceURL (exampleSnapshot ''a'' [exampleJob ''3'' ''Writer'', exampleJob ''3'' ''Editor''])
     = JobCollection.SourceURL (exampleSnapshot ''a'' [exampleJob ''1'' ''Engineer'']) \<and>
   ''3'' \<in> ID ` set (Jobs (exampleSnapshot ''a'' [exampleJob ''3'' ''Writer'', exampleJob ''3'' ''Editor''])) \<and>
   ''3'' \<notin> ID ` set (Jobs (exampleSnapshot ''a'' [exampleJob ''1'' ''Engineer''])) \<and>
   RemovedJobs (compareScrapeResults
       (exampleSnapshot ''a'' [exampleJob ''3'' ''Writer'', exampleJob ''3'' ''Editor''])
       (exampleSnapshot ''a'' [exampleJob ''1'' ''Engineer'']))
     = [exampleJob ''3'' ''Writer'', exampleJob ''3'' ''Editor''] \<and>
   count_list (map ID (RemovedJobs (compareScrapeResults
       (exampleSnapshot ''a'' [exampleJob ''3'' ''Writer'', exampleJob ''3'' ''Editor''])
       (exampleSnapshot ''a'' [exampleJob ''1'' ''Engineer''])))) ''3''
     = 2"
  by (simp add: compareScrapeResults_def exampleSnapshot_def exampleJob_def)

section \<open>Comparing a collection with itself\<close>

text \<open>
  C3. Comparing a collection with itself gives three empty lists, provided the job ids
  of the collection are distinct or, more generally, any two of its jobs with the same id
  agree on title, description, location and department.
\<close>

theorem diff_self_empty:
  assumes "distinct (map ID (Jobs S)) \<or>
           (\<forall>j \<in> set (Jobs S). \<forall>k \<in> set (Jobs S). ID j = ID k \<longrightarrow>
              Title j = Title k \<and> Description j = Description k \<and>
              Location j = Location k \<and> Department j = Department k)"
  shows "NewJobs (compareScrapeResults S S) = [] \<and>
         UpdatedJobs (compareScrapeResults S S) = [] \<and>
         RemovedJobs (compareScrapeResults S S) = []"
proof -
  have agree: "\<not> trackedFieldsDiffer j k"
    if j: "j \<in> set (Jobs S)" and k: "k \<in> set (Jobs S)" and same: "ID j = ID k" for j k
  proof -
    from assms show ?thesis
    proof
      assume "distinct (map ID (Jobs S))"
      from distinct_ids_same [OF this j k same] have "j = k" .
      then show ?thesis unfolding trackedFieldsDiffer_def by simp
    next
      assume "\<forall>j \<in> set (Jobs S). \<forall>k \<in> set (Jobs S). ID j = ID k \<longrightarrow>
              Title j = Title k \<and> Description j = Description k \<and>
              Location j = Location k \<and> Department j = Department k"
      with j k same have "Title j = Title k \<and> Description j = Description k \<and>
              Location j = Location k \<and> Department j = Department k" by blast
      then show ?thesis unfolding trackedFieldsDiffer_def by simp
    qed
  qed
  have new: "NewJobs (compareScrapeResults S S) = []"
    by (simp add: compare_New)
  have removed: "RemovedJobs (compareScrapeResults S S) = []"
    by (simp add: compare_Removed)
  have "\<not> (case lastWithID (Jobs S) (ID j) of None \<Rightarrow> False | Some p \<Rightarrow> trackedFieldsDiffer j p)"
    if j: "j \<in> set (Jobs S)" for j
  proof (cases "lastWithID (Jobs S) (ID j)")
    case None
    then show ?thesis by simp
  next
    case (Some p)
    from lastWithID_Some [OF Some] have "p \<in> set (Jobs S)" and "ID j = ID p" by simp_all
    from agree [OF j this] show ?thesis unfolding Some by simp
  qed
  then have updated: "UpdatedJobs (compareScrapeResults S S) = []"
    unfolding compare_Updated filter_empty_conv by blast
  from new updated removed show ?thesis by (intro conjI)
qed

text \<open>
  Two instances: a collection with jobs 1 and 2, and one that lists job 1 twice, the second
  time with another URL.
\<close>

theorem diff_self_empty_witness:
  "distinct (map ID (Jobs (exampleSnapshot ''a''
       [exampleJob ''1'' ''Engineer'', exampleJob ''2'' ''Designer'']))) \<and>
   NewJobs (compareScrapeResults
       (exampleSnapshot ''a'' [exampleJob ''1'' ''Engineer'', exampleJob ''2'' ''Designer''])
       (exampleSnapshot ''a'' [exampleJob ''1'' ''Engineer'', exampleJob ''2'' ''Designer''])) = [] \<and>
   UpdatedJobs (compareScrapeResults
       (exampleSnapshot ''a'' [exampleJob ''1'' ''Engineer'', exampleJob ''2'' ''Designer''])
       (exampleSnapshot ''a'' [exampleJob ''1'' ''Engineer'', exampleJob ''2'' ''Designer''])) = [] \<and>
   RemovedJobs (compareScrapeResults
       (exampleSnapshot ''a'' [exampleJob ''1'' ''Engineer'', exampleJob ''2'' ''Designer''])
       (exampleSnapshot ''a'' [exampleJob ''1'' ''Engineer'', exampleJob ''2'' ''Designer''])) = [] \<and>
   \<not> distinct (map ID (Jobs (exampleSnapshot ''a''
       [exampleJob ''1'' ''Engineer'', (exampleJob ''1'' ''Engineer'')\<lparr>URL := ''v''\<rparr>]))) \<and>
   UpdatedJobs (compareScrapeResults
       (exampleSnapshot ''a'' [exampleJob ''1'' ''Engineer'', (exampleJob ''1'' ''Engineer'')\<lparr>URL := ''v''\<rparr>])
       (exampleSnapshot ''a'' [exampleJob ''1'' ''Engineer'', (exampleJob ''1'' ''Engineer'')\<lparr>URL := ''v''\<rparr>]))
     = []"
proof -
  let ?S = "exampleSnapshot ''a'' [exampleJob ''1'' ''Engineer'', exampleJob ''2'' ''Designer'']"
  let ?T = "exampleSnapshot ''a''
              [exampleJob ''1'' ''Engineer'', (exampleJob ''1'' ''Engineer'')\<lparr>URL := ''v''\<rparr>]"
  have dist: "distinct (map ID (Jobs ?S))"
    by (simp add: exampleSnapshot_def exampleJob_def)
  have dup: "\<not> distinct (map ID (Jobs ?T))"
    by (simp add: exampleSnapshot_def exampleJob_def)
  have agree: "\<forall>j \<in> set (Jobs ?T). \<forall>k \<in> set (Jobs ?T). ID j = ID k \<longrightarrow>
              Title j = Title k \<and> Description j = Description k \<and>
              Location j = Location k \<and> Department j = Department k"
    by (simp add: exampleSnapshot_def exampleJob_def)
  from diff_self_empty [of ?S, OF disjI1 [OF dist]] diff_self_empty [of ?T, OF disjI2 [OF agree]]
    dist dup
  show ?thesis by (intro conjI) simp_all
qed

text \<open>
  Where two jobs of a collection share an id and differ in title, the map holds the
  second one, and the first one is compared with it: comparing the collection with itself
  reports the first job as updated.
\<close>

theorem diff_self_empty_counterexample:
  "UpdatedJobs (compareScrapeResults
       (exampleSnapshot ''a'' [exampleJob ''1'' ''Engineer'', exampleJob ''1'' ''Designer''])
       (exampleSnapshot ''a'' [exampleJob ''1'' ''Engineer'', exampleJob ''1'' ''Designer'']))
     = [exampleJob ''1'' ''Engineer''] \<and>
   UpdatedJobs (compareScrapeResults
       (exampleSnapshot ''a'' [exampleJob ''1'' ''Engineer'', exampleJob ''1'' ''Designer''])
       (exampleSnapshot ''a'' [exampleJob ''1'' ''Engineer'', exampleJob ''1'' ''Designer'']))
     \<noteq> []"
  by (simp add: compareScrapeResults_def exampleSnapshot_def exampleJob_def)

section \<open>Which fields make a job updated\<close>

text \<open>
  C4. Take a job of the current collection whose id the previous collection has too, and
  let \<open>prevJob\<close> be the previous version of it: the job the diff looks up for that id, which
  is the last job of the previous collection with that id (the only one when ids do not
  repeat). The job is in \<^verbatim>\<open>UpdatedJobs\<close> exactly when its title, description, location or
  department differs from that of \<open>prevJob\<close>, and it is never in \<^verbatim>\<open>NewJobs\<close> or
  \<^verbatim>\<open>RemovedJobs\<close>. So a job that differs from \<open>prevJob\<close> in URL and posting date only is
  unchanged, and a job that differs in its title alone is updated.
\<close>

theorem diff_field_sensitivity:
  assumes "job \<in> set (Jobs current)"
    and "lastWithID (Jobs previous) (ID job) = Some prevJob"
  shows "(job \<in> set (UpdatedJobs (compareScrapeResults previous current)) \<longleftrightarrow>
            Title job \<noteq> Title prevJob \<or> Description job \<noteq> Description prevJob \<or>
            Location job \<noteq> Location prevJob \<or> Department job \<noteq> Department prevJob) \<and>
         job \<notin> set (NewJobs (compareScrapeResults previous current)) \<and>
         job \<notin> set (RemovedJobs (compareScrapeResults previous current)) \<and>
         (job = prevJob\<lparr>URL := u, PostedDate := t\<rparr> \<longrightarrow>
            job \<notin> set (UpdatedJobs (compareScrapeResults previous current))) \<and>
         (job = prevJob\<lparr>Title := t'\<rparr> \<and> t' \<noteq> Title prevJob \<longrightarrow>
            job \<in> set (UpdatedJobs (compareScrapeResults previous current)))"
proof -
  let ?d = "compareScrapeResults previous current"
  have upd: "job \<in> set (UpdatedJobs ?d) \<longleftrightarrow> trackedFieldsDiffer job prevJob"
    using assms by (simp add: compare_Updated)
  have new: "job \<notin> set (NewJobs ?d)"
    using assms(2) by (simp add: compare_New lastWithID_None [symmetric])
  have removed: "job \<notin> set (RemovedJobs ?d)"
    using assms(1) by (auto simp: compare_Removed)
  have url: "job = prevJob\<lparr>URL := u, PostedDate := t\<rparr> \<longrightarrow> job \<notin> set (UpdatedJobs ?d)"
    using upd by (auto simp: trackedFieldsDiffer_def)
  have title: "job = prevJob\<lparr>Title := t'\<rparr> \<and> t' \<noteq> Title prevJob \<longrightarrow> job \<in> set (UpdatedJobs ?d)"
    using upd by (auto simp: trackedFieldsDiffer_def)
  from upd new removed url title show ?thesis
    unfolding trackedFieldsDiffer_def by (intro conjI)
qed

text \<open>
  An instance: the previous collection has jobs 1 and 2; in the current one job 1 has a
  new title and job 2 a new URL and posting date. Job 1 is updated, job 2 is not.
\<close>

theorem diff_field_sensitivity_witness:
  "exampleJob ''1'' ''Senior Engineer''
     \<in> set (Jobs (exampleSnapshot ''a''
          [exampleJob ''1'' ''Senior Engineer'', (exampleJob ''2'' ''Designer'')\<lparr>URL := ''v'', PostedDate := 7\<rparr>])) \<and>
   lastWithID (Jobs (exampleSnapshot ''a'' [exampleJob ''1'' ''Engineer'', exampleJob ''2'' ''Designer'']))
       (ID (exampleJob ''1'' ''Senior Engineer'')) = Some (exampleJob ''1'' ''Engineer'') \<and>
   exampleJob ''1'' ''Senior Engineer'' = (exampleJob ''1'' ''Engineer'')\<lparr>Title := ''Senior Engineer''\<rparr> \<and>
   ''Senior Engineer'' \<noteq> Title (exampleJob ''1'' ''Engineer'') \<and>
   exampleJob ''1'' ''Senior Engineer''
     \<in> set (UpdatedJobs (compareScrapeResults
          (exampleSnapshot ''a'' [exampleJob ''1'' ''Engineer'', exampleJob ''2'' ''Designer''])
          (exampleSnapshot ''a''
            [exampleJob ''1'' ''Senior Engineer'', (exampleJob ''2'' ''Designer'')\<lparr>URL := ''v'', PostedDate := 7\<rparr>]))) \<and>
   (exampleJob ''2'' ''Designer'')\<lparr>URL := ''v'', PostedDate := 7\<rparr>
     \<in> set (Jobs (exampleSnapshot ''a''
          [exampleJob ''1'' ''Senior Engineer'', (exampleJob ''2'' ''Designer'')\<lparr>URL := ''v'', PostedDate := 7\<rparr>])) \<and>
   lastWithID (Jobs (exampleSnapshot ''a'' [exampleJob ''1'' ''Engineer'', exampleJob ''2'' ''Designer'']))
       (ID ((exampleJob ''2'' ''Designer'')\<lparr>URL := ''v'', PostedDate := 7\<rparr>))
     = Some (exampleJob ''2'' ''Designer'') \<and>
   (exampleJob ''2'' ''Designer'')\<lparr>URL := ''v'', PostedDate := 7\<rparr>
     \<notin> set (UpdatedJobs (compareScrapeResults
          (exampleSnapshot ''a'' [exampleJob ''1'' ''Engineer'', exampleJob ''2'' ''Designer''])
          (exampleSnapshot ''a''
            [exampleJob ''1'' ''Senior Engineer'', (exampleJob ''2'' ''Designer'')\<lparr>URL := ''v'', PostedDate := 7\<rparr>])))"
proof -
  let ?prev = "exampleSnapshot ''a'' [exampleJob ''1'' ''Engineer'', exampleJob ''2'' ''Designer'']"
  let ?j1 = "exampleJob ''1'' ''Senior Engineer''"
  let ?j2 = "(exampleJob ''2'' ''Designer'')\<lparr>URL := ''v'', PostedDate := 7\<rparr>"
  let ?cur = "exampleSnapshot ''a'' [?j1, ?j2]"
  have in1: "?j1 \<in> set (Jobs ?cur)" and in2: "?j2 \<in> set (Jobs ?cur)"
    by (simp_all add: exampleSnapshot_def)
  have p1: "lastWithID (Jobs ?prev) (ID ?j1) = Some (exampleJob ''1'' ''Engineer'')"
    by (simp add: lastWithID_def exampleSnapshot_def exampleJob_def)
  have p2: "lastWithID (Jobs ?prev) (ID ?j2) = Some (exampleJob ''2'' ''Designer'')"
    by (simp add: lastWithID_def exampleSnapshot_def exampleJob_def)
  have t1: "?j1 = (exampleJob ''1'' ''Engineer'')\<lparr>Title := ''Senior Engineer''\<rparr>"
    and t2: "''Senior Engineer'' \<noteq> Title (exampleJob ''1'' ''Engineer'')"
    by (simp_all add: exampleJob_def)
  from diff_field_sensitivity [OF in1 p1, where t' = "''Senior Engineer''"] t1 t2
  have u1: "?j1 \<in> set (UpdatedJobs (compareScrapeResults ?prev ?cur))" by blast
  from diff_field_sensitivity [OF in2 p2, where u = "''v''" and t = 7]
  have u2: "?j2 \<notin> set (UpdatedJobs (compareScrapeResults ?prev ?cur))" by blast
  from in1 p1 t1 t2 u1 in2 p2 u2 show ?thesis by (intro conjI)
qed

section \<open>A failed notification does not stop the save\<close>

text \<open>
  C5. In a pass over one URL, let the scrape succeed with \<open>current\<close>, the lookup succeed
  with \<open>previous\<close>, the diff of the two have a non-empty list, and the notifier answer
  with an error. Then the calls of the pass are Scrape, GetLatest, Notify with that diff,
  and then Save with \<open>current\<close>; the repository is left as that save leaves it, and the
  pass fails only if the save does.
\<close>

theorem save_after_notify_error:
  assumes scrape: "scraper_Scrape s url (scraperState w) = ((current, None), st)"
    and lookup: "repository_GetLatestJobCollection s url (repositoryState w) = ((previous, None), rs)"
    and changed: "NewJobs (compareScrapeResults previous current) \<noteq> [] \<or>
                  RemovedJobs (compareScrapeResults previous current) \<noteq> [] \<or>
                  UpdatedJobs (compareScrapeResults previous current) \<noteq> []"
    and notify: "notifier_NotifyNewJobs s (compareScrapeResults previous current) (notifierState w)
                   = (Some e, ns)"
  shows "calls (trace (snd (processSingleURL s url w)))
           = calls (trace w) @ [CallScrape url, CallGetLatest url,
                                CallNotify (compareScrapeResults previous current),
                                CallSave current] \<and>
         repositoryState (snd (processSingleURL s url w))
           = snd (repository_SaveJobCollection s current rs) \<and>
         fst (processSingleURL s url w)
           = map_option FailedToSave (fst (repository_SaveJobCollection s current rs))"
proof -
  let ?d = "compareScrapeResults previous current"
  let ?w5 = "w\<lparr>scraperState := st, repositoryState := rs,
               trace := trace w @ [Log (StartingToScrape url), CallScrape url,
                 Log (FoundJobs (length (Jobs current)) url), CallGetLatest url,
                 Log (RetrievedPrevious (length (Jobs previous))),
                 Log (DiffResults url (length (NewJobs ?d)) (length (UpdatedJobs ?d))
                        (length (RemovedJobs ?d)))]\<rparr>"
  have n: "notifier_NotifyNewJobs s ?d (notifierState ?w5) = (Some e, ns)"
    using notify by simp
  note nc = notifyChanges_error [OF changed n, of url]
  show ?thesis
    using scrape lookup
    by (cases "repository_SaveJobCollection s current rs")
       (simp add: processSingleURL_def port_defs Let_def nc split: option.splits)
qed

text \<open>
  An instance, on the in-memory repository: the stored snapshot of \<open>''a''\<close> has job 1, the
  page has job 1 with a new title and job 2, and the notifier fails. The new snapshot is
  saved after the notification, and the repository holds it.
\<close>

theorem save_after_notify_error_witness:
  "NewJobs (compareScrapeResults
       (exampleSnapshot ''a'' [exampleJob ''1'' ''Engineer''])
       (exampleSnapshot ''a'' [exampleJob ''1'' ''Senior Engineer'', exampleJob ''2'' ''Designer'']))
     = [exampleJob ''2'' ''Designer''] \<and>
   calls (trace (snd (processSingleURL
       (NewCareerScraperService
          (tableScraper [(''a'', exampleSnapshot ''a''
             [exampleJob ''1'' ''Senior Engineer'', exampleJob ''2'' ''Designer''])])
          failingNotifier SaveJobCollection GetLatestJobCollection [''a''])
       ''a''
       (exampleWorld (saveAll [exampleSnapshot ''a'' [exampleJob ''1'' ''Engineer'']]
          NewMemoryRepository)))))
     = [CallScrape ''a'', CallGetLatest ''a'',
        CallNotify (compareScrapeResults
          (exampleSnapshot ''a'' [exampleJob ''1'' ''Engineer''])
          (exampleSnapshot ''a'' [exampleJob ''1'' ''Senior Engineer'', exampleJob ''2'' ''Designer''])),
        CallSave (exampleSnapshot ''a''
          [exampleJob ''1'' ''Senior Engineer'', exampleJob ''2'' ''Designer''])] \<and>
   collections (repositoryState (snd (processSingleURL
       (NewCareerScraperService
          (tableScraper [(''a'', exampleSnapshot ''a''
             [exampleJob ''1'' ''Senior Engineer'', exampleJob ''2'' ''Designer''])])
          failingNotifier SaveJobCollection GetLatestJobCollection [''a''])
       ''a''
       (exampleWorld (saveAll [exampleSnapshot ''a'' [exampleJob ''1'' ''Engineer'']]
          NewMemoryRepository))))) ''a''
     = Some (exampleSnapshot ''a'' [exampleJob ''1'' ''Senior Engineer'', exampleJob ''2'' ''Designer''])"
proof -
  let ?prev = "exampleSnapshot ''a'' [exampleJob ''1'' ''Engineer'']"
  let ?cur = "exampleSnapshot ''a'' [exampleJob ''1'' ''Senior Engineer'', exampleJob ''2'' ''Designer'']"
  let ?r = "saveAll [?prev] NewMemoryRepository"
  let ?s = "NewCareerScraperService (tableScraper [(''a'', ?cur)])
              failingNotifier SaveJobCollection GetLatestJobCollection [''a'']"
  let ?w = "exampleWorld ?r"
  have scrape: "scraper_Scrape ?s ''a'' (scraperState ?w) = ((?cur, None), ())"
    by (simp add: NewCareerScraperService_def tableScraper_def)
  have lookup: "repository_GetLatestJobCollection ?s ''a'' (repositoryState ?w) = ((?prev, None), ?r)"
    by (simp add: NewCareerScraperService_def exampleWorld_def GetLatestJobCollection_def
        SaveJobCollection_def NewMemoryRepository_def exampleSnapshot_def)
  have new: "NewJobs (compareScrapeResults ?prev ?cur) = [exampleJob ''2'' ''Designer'']"
    by (simp add: compare_New exampleSnapshot_def exampleJob_def)
  then have changed: "NewJobs (compareScrapeResults ?prev ?cur) \<noteq> [] \<or>
                  RemovedJobs (compareScrapeResults ?prev ?cur) \<noteq> [] \<or>
                  UpdatedJobs (compareScrapeResults ?prev ?cur) \<noteq> []"
    by simp
  have notify: "notifier_NotifyNewJobs ?s (compareScrapeResults ?prev ?cur) (notifierState ?w)
                  = (Some (External ''delivery failed''), ())"
    by (simp add: NewCareerScraperService_def failingNotifier_def)
  have save: "repository_SaveJobCollection ?s ?cur ?r = SaveJobCollection ?cur ?r"
    by (simp add: NewCareerScraperService_def)
  have stored: "collections (snd (SaveJobCollection ?cur ?r)) ''a'' = Some ?cur"
    by (simp add: SaveJobCollection_def exampleSnapshot_def)
  have tr: "trace ?w = []"
    by (simp add: exampleWorld_def)
  from save_after_notify_error [OF scrape lookup changed notify] new save stored tr
  show ?thesis by simp
qed

section \<open>One pass over all URLs\<close>

text \<open>
  C6. \<^verbatim>\<open>ScrapeAndNotify\<close> returns nil whatever happens. The state it leaves is the one
  reached by running, for each configured URL in order, the whole of \<^verbatim>\<open>processSingleURL\<close>
  in the state the URLs before it left, followed by the log line that reports the error if
  that run returned one: whatever a run returns, the next URL is processed in full. So
  the URLs scraped are the configured ones, each once per occurrence and in order. And for
  a URL that stands after \<open>us\<close> in the list, the trace of the pass begins with the trace of
  the run of \<^verbatim>\<open>processSingleURL\<close> for that URL from where the pass over \<open>us\<close> ended: every
  call that run makes is a call of the pass.
\<close>

theorem pass_isolates_failures:
  fixes s :: "('s, 'n, 'r) CareerScraperService" and w :: "('s, 'n, 'r) world"
  defines "step \<equiv> \<lambda>w' url.
             case processSingleURL s url (emit (Log (ProcessingURL url)) w') of
               (None, w1) \<Rightarrow> w1
             | (Some e, w1) \<Rightarrow> emit (Log (ErrorProcessingURL url e)) w1"
    and "start \<equiv> emit (Log (StartingScrapeJob (length (urls s)))) w"
  shows "fst (ScrapeAndNotify s w) = None \<and>
         snd (ScrapeAndNotify s w) = emit (Log CompletedScrapeJob) (foldl step start (urls s)) \<and>
         scrapedURLs (trace (snd (ScrapeAndNotify s w))) = scrapedURLs (trace w) @ urls s \<and>
         (urls s = us @ url # vs \<longrightarrow>
            take (length (trace (snd (processSingleURL s url
                    (emit (Log (ProcessingURL url)) (foldl step start us))))))
              (trace (snd (ScrapeAndNotify s w)))
            = trace (snd (processSingleURL s url
                    (emit (Log (ProcessingURL url)) (foldl step start us)))))"
proof -
  have a: "fst (ScrapeAndNotify s w) = None"
    by (simp add: ScrapeAndNotify_def Let_def)
  have b: "snd (ScrapeAndNotify s w) = emit (Log CompletedScrapeJob) (foldl step start (urls s))"
    unfolding step_def start_def by (simp add: ScrapeAndNotify_def Let_def urlLoop_foldl)
  have c: "scrapedURLs (trace (snd (ScrapeAndNotify s w))) = scrapedURLs (trace w) @ urls s"
    by (simp add: ScrapeAndNotify_def Let_def urlLoop_scraped emit_def)
  have d: "take (length (trace (snd (processSingleURL s url
                    (emit (Log (ProcessingURL url)) (foldl step start us))))))
              (trace (snd (ScrapeAndNotify s w)))
            = trace (snd (processSingleURL s url
                    (emit (Log (ProcessingURL url)) (foldl step start us))))"
    if split: "urls s = us @ url # vs"
  proof -
    have pre: "foldl step start us = urlLoop s us (emit (Log (StartingScrapeJob (length (urls s)))) w)"
      unfolding step_def start_def by (simp add: urlLoop_foldl)
    from pass_contains_run [OF split, of w] show ?thesis
      unfolding pre by auto
  qed
  from a b c d show ?thesis by blast
qed

text \<open>
  An instance: the URLs are \<open>''a''\<close> and \<open>''b''\<close>. The scrape of \<open>''a''\<close> fails. The repository
  holds a snapshot of \<open>''b''\<close> with job 1, the page of \<open>''b''\<close> has job 1 with a new title and
  job 2, and the notifier fails. The pass returns nil, and after the failed scrape of
  \<open>''a''\<close> it scrapes \<open>''b''\<close>, looks it up, notifies and saves; the repository holds the new
  snapshot of \<open>''b''\<close>.
\<close>

theorem pass_isolates_failures_witness:
  "urls (NewCareerScraperService
          (tableScraper [(''b'', exampleSnapshot ''b''
             [exampleJob ''1'' ''Senior Engineer'', exampleJob ''2'' ''Designer''])])
          failingNotifier SaveJobCollection GetLatestJobCollection [''a'', ''b''])
     = [''a''] @ ''b'' # [] \<and>
   fst (ScrapeAndNotify
       (NewCareerScraperService
          (tableScraper [(''b'', exampleSnapshot ''b''
             [exampleJob ''1'' ''Senior Engineer'', exampleJob ''2'' ''Designer''])])
          failingNotifier SaveJobCollection GetLatestJobCollection [''a'', ''b''])
       (exampleWorld (saveAll [exampleSnapshot ''b'' [exampleJob ''1'' ''Engineer'']]
          NewMemoryRepository))) = None \<and>
   scrapedURLs (trace (snd (ScrapeAndNotify
       (NewCareerScraperService
          (tableScraper [(''b'', exampleSnapshot ''b''
             [exampleJob ''1'' ''Senior Engineer'', exampleJob ''2'' ''Designer''])])
          failingNotifier SaveJobCollection GetLatestJobCollection [''a'', ''b''])
       (exampleWorld (saveAll [exampleSnapshot ''b'' [exampleJob ''1'' ''Engineer'']]
          NewMemoryRepository))))) = [''a'', ''b''] \<and>
   calls (trace (snd (ScrapeAndNotify
       (NewCareerScraperService
          (tableScraper [(''b'', exampleSnapshot ''b''
             [exampleJob ''1'' ''Senior Engineer'', exampleJob ''2'' ''Designer''])])
          failingNotifier SaveJobCollection GetLatestJobCollection [''a'', ''b''])
       (exampleWorld (saveAll [exampleSnapshot ''b'' [exampleJob ''1'' ''Engineer'']]
          NewMemoryRepository)))))
     = [CallScrape ''a'', CallScrape ''b'', CallGetLatest ''b'',
        CallNotify (compareScrapeResults
          (exampleSnapshot ''b'' [exampleJob ''1'' ''Engineer''])
          (exampleSnapshot ''b'' [exampleJob ''1'' ''Senior Engineer'', exampleJob ''2'' ''Designer''])),
        CallSave (exampleSnapshot ''b''
          [exampleJob ''1'' ''Senior Engineer'', exampleJob ''2'' ''Designer''])] \<and>
   collections (repositoryState (snd (ScrapeAndNotify
       (NewCareerScraperService
          (tableScraper [(''b'', exampleSnapshot ''b''
             [exampleJob ''1'' ''Senior Engineer'', exampleJob ''2'' ''Designer''])])
          failingNotifier SaveJobCollection GetLatestJobCollection [''a'', ''b''])
       (exampleWorld (saveAll [exampleSnapshot ''b'' [exampleJob ''1'' ''Engineer'']]
          NewMemoryRepository))))) ''b''
     = Some (exampleSnapshot ''b'' [exampleJob ''1'' ''Senior Engineer'', exampleJob ''2'' ''Designer'']) \<and>
   CallSave (exampleSnapshot ''b'' [exampleJob ''1'' ''Senior Engineer'', exampleJob ''2'' ''Designer''])
     \<in> set (trace (snd (ScrapeAndNotify
       (NewCareerScraperService
          (tableScraper [(''b'', exampleSnapshot ''b''
             [exampleJob ''1'' ''Senior Engineer'', exampleJob ''2'' ''Designer''])])
          failingNotifier SaveJobCollection GetLatestJobCollection [''a'', ''b''])
       (exampleWorld (saveAll [exampleSnapshot ''b'' [exampleJob ''1'' ''Engineer'']]
          NewMemoryRepository)))))"
proof -
  let ?prev = "exampleSnapshot ''b'' [exampleJob ''1'' ''Engineer'']"
  let ?cur = "exampleSnapshot ''b'' [exampleJob ''1'' ''Senior Engineer'', exampleJob ''2'' ''Designer'']"
  let ?s = "NewCareerScraperService (tableScraper [(''b'', ?cur)])
              failingNotifier SaveJobCollection GetLatestJobCollection [''a'', ''b'']"
  let ?w = "exampleWorld (saveAll [?prev] NewMemoryRepository)"
  let ?step = "\<lambda>w' url.
             case processSingleURL ?s url (emit (Log (ProcessingURL url)) w') of
               (None, w1) \<Rightarrow> w1
             | (Some e, w1) \<Rightarrow> emit (Log (ErrorProcessingURL url e)) w1"
  let ?start = "emit (Log (StartingScrapeJob (length (urls ?s)))) ?w"
  let ?run = "trace (snd (processSingleURL ?s ''b''
                 (emit (Log (ProcessingURL ''b'')) (foldl ?step ?start [''a'']))))"
  note T = pass_isolates_failures [where s = ?s and w = ?w and us = "[''a'']" and url = "''b''"
      and vs = "[]"]
  have us: "urls ?s = [''a''] @ ''b'' # []"
    by (simp add: NewCareerScraperService_def)
  have nil: "fst (ScrapeAndNotify ?s ?w) = None"
    by (rule T [THEN conjunct1])
  have final: "snd (ScrapeAndNotify ?s ?w) = emit (Log CompletedScrapeJob) (foldl ?step ?start (urls ?s))"
    by (rule T [THEN conjunct2, THEN conjunct1])
  have scraped: "scrapedURLs (trace (snd (ScrapeAndNotify ?s ?w))) = [''a'', ''b'']"
    using T [THEN conjunct2, THEN conjunct2, THEN conjunct1]
    by (simp add: exampleWorld_def NewCareerScraperService_def)
  have fold_all: "foldl ?step ?start (urls ?s) = urlLoop ?s [''a'', ''b''] ?start"
    by (simp add: urlLoop_foldl NewCareerScraperService_def)
  have fold_a: "foldl ?step ?start [''a''] = urlLoop ?s [''a''] ?start"
    by (simp add: urlLoop_foldl)
  have cs: "calls (trace (snd (ScrapeAndNotify ?s ?w)))
     = [CallScrape ''a'', CallScrape ''b'', CallGetLatest ''b'',
        CallNotify (compareScrapeResults ?prev ?cur), CallSave ?cur]"
    unfolding final fold_all by (simp add: run_defs example_defs)
  have stored: "collections (repositoryState (snd (ScrapeAndNotify ?s ?w))) ''b'' = Some ?cur"
    unfolding final fold_all by (simp add: run_defs example_defs)
  have tk: "take (length ?run) (trace (snd (ScrapeAndNotify ?s ?w))) = ?run"
    using T [THEN conjunct2, THEN conjunct2, THEN conjunct2] us by (rule mp)
  have mem: "CallSave ?cur \<in> set ?run"
    unfolding fold_a by (simp add: run_defs example_defs)
  have "CallSave ?cur \<in> set (take (length ?run) (trace (snd (ScrapeAndNotify ?s ?w))))"
    unfolding tk by (rule mem)
  then have saved: "CallSave ?cur \<in> set (trace (snd (ScrapeAndNotify ?s ?w)))"
    by (rule in_set_takeD)
  from us nil scraped cs stored saved show ?thesis by (intro conjI)
qed

section \<open>Lookup of a URL that was never saved\<close>

text \<open>
  C7. \<^verbatim>\<open>GetLatestJobCollection\<close> of the in-memory repository, for a URL that the map has
  no entry for, returns the zero collection and a nil error and leaves the repository as
  it is. That is the case of every URL in which no collection was saved since the
  repository was made.
\<close>

theorem get_latest_missing:
  "(collections r url = None \<longrightarrow>
      GetLatestJobCollection url r = ((JobCollection_zero, None), r)) \<and>
   (url \<notin> JobCollection.SourceURL ` set cs \<longrightarrow>
      GetLatestJobCollection url (saveAll cs NewMemoryRepository)
        = ((JobCollection_zero, None), saveAll cs NewMemoryRepository))"
  by (simp add: GetLatestJobCollection_def saveAll_other NewMemoryRepository_def)

text \<open>
  An instance: the lookup of \<open>''a''\<close> in a new repository, and in one that holds a snapshot
  of \<open>''b''\<close> only.
\<close>

theorem get_latest_missing_witness:
  "collections NewMemoryRepository ''a'' = None \<and>
   ''a'' \<notin> JobCollection.SourceURL ` set [exampleSnapshot ''b'' [exampleJob ''1'' ''Engineer'']] \<and>
   GetLatestJobCollection ''a'' NewMemoryRepository = ((JobCollection_zero, None), NewMemoryRepository) \<and>
   GetLatestJobCollection ''a''
     (saveAll [exampleSnapshot ''b'' [exampleJob ''1'' ''Engineer'']] NewMemoryRepository)
     = ((JobCollection_zero, None),
        saveAll [exampleSnapshot ''b'' [exampleJob ''1'' ''Engineer'']] NewMemoryRepository)"
proof -
  have h1: "collections NewMemoryRepository ''a'' = None"
    by (simp add: NewMemoryRepository_def)
  have h2: "''a'' \<notin> JobCollection.SourceURL ` set [exampleSnapshot ''b'' [exampleJob ''1'' ''Engineer'']]"
    by (simp add: exampleSnapshot_def)
  from get_latest_missing [of NewMemoryRepository "''a''"
      "[exampleSnapshot ''b'' [exampleJob ''1'' ''Engineer'']]"] h1 h2
  show ?thesis by blast
qed

section \<open>A failed scrape changes nothing\<close>

text \<open>
  C8. In a pass over one URL, if the scraper answers with an error, the pass returns that
  error wrapped, its only call is the scrape (no lookup, no notification, no save), and
  the repository and the notifier are as they were.
\<close>

theorem scrape_error_no_mutation:
  assumes "scraper_Scrape s url (scraperState w) = ((c, Some e), st)"
  shows "fst (processSingleURL s url w) = Some (FailedToScrape url e) \<and>
         repositoryState (snd (processSingleURL s url w)) = repositoryState w \<and>
         notifierState (snd (processSingleURL s url w)) = notifierState w \<and>
         calls (trace (snd (processSingleURL s url w))) = calls (trace w) @ [CallScrape url]"
  by (simp add: processSingleURL_scrape_error [OF assms])

text \<open>
  An instance: the repository holds a snapshot of \<open>''a''\<close> and the scrape of \<open>''a''\<close> fails.
\<close>

theorem scrape_error_no_mutation_witness:
  "scraper_Scrape (NewCareerScraperService (tableScraper []) silentNotifier
       SaveJobCollection GetLatestJobCollection [''a''])
     ''a'' (scraperState (exampleWorld (saveAll [exampleSnapshot ''a'' []] NewMemoryRepository)))
     = ((JobCollection_zero, Some (External ''fetch failed'')), ()) \<and>
   fst (processSingleURL (NewCareerScraperService (tableScraper []) silentNotifier
       SaveJobCollection GetLatestJobCollection [''a''])
     ''a'' (exampleWorld (saveAll [exampleSnapshot ''a'' []] NewMemoryRepository)))
     = Some (FailedToScrape ''a'' (External ''fetch failed'')) \<and>
   repositoryState (snd (processSingleURL (NewCareerScraperService (tableScraper []) silentNotifier
       SaveJobCollection GetLatestJobCollection [''a''])
     ''a'' (exampleWorld (saveAll [exampleSnapshot ''a'' []] NewMemoryRepository))))
     = saveAll [exampleSnapshot ''a'' []] NewMemoryRepository \<and>
   calls (trace (snd (processSingleURL (NewCareerScraperService (tableScraper []) silentNotifier
       SaveJobCollection GetLatestJobCollection [''a''])
     ''a'' (exampleWorld (saveAll [exampleSnapshot ''a'' []] NewMemoryRepository)))))
     = [CallScrape ''a'']"
proof -
  let ?s = "NewCareerScraperService (tableScraper []) silentNotifier
       SaveJobCollection GetLatestJobCollection [''a'']"
  let ?w = "exampleWorld (saveAll [exampleSnapshot ''a'' []] NewMemoryRepository)"
  have h: "scraper_Scrape ?s ''a'' (scraperState ?w)
             = ((JobCollection_zero, Some (External ''fetch failed'')), ())"
    by (simp add: NewCareerScraperService_def tableScraper_def)
  have w: "repositoryState ?w = saveAll [exampleSnapshot ''a'' []] NewMemoryRepository"
      "trace ?w = []"
    by (simp_all add: exampleWorld_def)
  from scrape_error_no_mutation [OF h] h w show ?thesis by simp
qed

section \<open>Save overwrites one entry\<close>

text \<open>
  C9. After \<^verbatim>\<open>SaveJobCollection\<close> of a collection \<open>c\<close> in the in-memory repository, the
  lookup of the source URL of \<open>c\<close> returns \<open>c\<close> itself with a nil error, whatever was
  stored before; for every other URL the stored entry and the result of the lookup are
  what they were before the save.
\<close>

theorem save_then_get:
  "fst (GetLatestJobCollection (JobCollection.SourceURL c) (snd (SaveJobCollection c r))) = (c, None) \<and>
   (\<forall>url. url \<noteq> JobCollection.SourceURL c \<longrightarrow>
      collections (snd (SaveJobCollection c r)) url = collections r url \<and>
      fst (GetLatestJobCollection url (snd (SaveJobCollection c r)))
        = fst (GetLatestJobCollection url r))"
  by (simp add: GetLatestJobCollection_def SaveJobCollection_def split: option.splits)

text \<open>
  An instance: the repository holds snapshots of \<open>''a''\<close> and \<open>''b''\<close>; a new snapshot of
  \<open>''a''\<close> is saved. The lookup of \<open>''a''\<close> returns the new one and the entry of \<open>''b''\<close>
  is the old one.
\<close>

theorem save_then_get_witness:
  "fst (GetLatestJobCollection ''a''
          (snd (SaveJobCollection (exampleSnapshot ''a'' [exampleJob ''1'' ''Engineer''])
                  (saveAll [exampleSnapshot ''a'' [], exampleSnapshot ''b'' []] NewMemoryRepository))))
     = (exampleSnapshot ''a'' [exampleJob ''1'' ''Engineer''], None) \<and>
   ''b'' \<noteq> ''a'' \<and>
   collections (snd (SaveJobCollection (exampleSnapshot ''a'' [exampleJob ''1'' ''Engineer''])
                  (saveAll [exampleSnapshot ''a'' [], exampleSnapshot ''b'' []] NewMemoryRepository))) ''b''
     = Some (exampleSnapshot ''b'' [])"
proof -
  let ?c = "exampleSnapshot ''a'' [exampleJob ''1'' ''Engineer'']"
  let ?r = "saveAll [exampleSnapshot ''a'' [], exampleSnapshot ''b'' []] NewMemoryRepository"
  have url: "JobCollection.SourceURL ?c = ''a''" by (simp add: exampleSnapshot_def)
  have ne: "''b'' \<noteq> ''a''" by simp
  have old: "collections ?r ''b'' = Some (exampleSnapshot ''b'' [])"
    by (simp add: SaveJobCollection_def NewMemoryRepository_def exampleSnapshot_def)
  from save_then_get [of ?c ?r] url ne old show ?thesis by simp
qed

section \<open>The in-memory repository never fails\<close>

text \<open>
  C10. Both methods of the in-memory repository return a nil error in every state and
  for every argument. So in a service built on it no pass, over one URL or over all,
  takes the branch for a failed lookup: the trace gains no event of that branch.
\<close>

theorem memory_repository_never_errors:
  "fst (SaveJobCollection c r) = None \<and>
   snd (fst (GetLatestJobCollection url r)) = None \<and>
   filter isLookupFailure
     (trace (snd (processSingleURL
        (NewCareerScraperService scraper notifier SaveJobCollection GetLatestJobCollection us)
        url w)))
     = filter isLookupFailure (trace w) \<and>
   filter isLookupFailure
     (trace (snd (ScrapeAndNotify
        (NewCareerScraperService scraper notifier SaveJobCollection GetLatestJobCollection us)
        w)))
     = filter isLookupFailure (trace w)"
  by (simp add: SaveJobCollection_def GetLatestJobCollection_def
      memory_processSingleURL_lookup memory_urlLoop_lookup ScrapeAndNotify_def Let_def emit_def
      NewCareerScraperService_def split: option.splits)

text \<open>
  An instance: a pass over two URLs, one of which cannot be scraped, with a notifier that
  fails, from a new repository.
\<close>

theorem memory_repository_never_errors_witness:
  "fst (SaveJobCollection (exampleSnapshot ''a'' []) NewMemoryRepository) = None \<and>
   snd (fst (GetLatestJobCollection ''a'' NewMemoryRepository)) = None \<and>
   filter isLookupFailure
     (trace (snd (ScrapeAndNotify
        (NewCareerScraperService
           (tableScraper [(''a'', exampleSnapshot ''a'' [exampleJob ''1'' ''Engineer''])])
           failingNotifier SaveJobCollection GetLatestJobCollection [''a'', ''b''])
        (exampleWorld NewMemoryRepository))))
     = []"
proof -
  have "trace (exampleWorld NewMemoryRepository) = []"
    by (simp add: exampleWorld_def)
  with memory_repository_never_errors [of "exampleSnapshot ''a'' []" NewMemoryRepository "''a''"
      "tableScraper [(''a'', exampleSnapshot ''a'' [exampleJob ''1'' ''Engineer''])]"
      failingNotifier "[''a'', ''b'']" "exampleWorld NewMemoryRepository"]
  show ?thesis by simp
qed

end
